theory Spec2Isabelle
  imports Main
begin

section \<open>Python values\<close>

text \<open>
  The memory manager of \<^verbatim>\<open>character_chatbot_memory.py\<close> works on untyped data: items
  of the document store, the JSON a language model returns, and chat messages. They are
  modelled by one datatype of JSON-like values. A Python \<^verbatim>\<open>str\<close> is the list of its
  Unicode code points, so that \<^verbatim>\<open>len\<close> and slicing count what Python counts. Numbers
  are integers: a non-integral number (a Python float, a non-integral Decimal) has no
  counterpart here. A \<^verbatim>\<open>dict\<close> is an association list with unique keys in insertion order.
\<close>

type_synonym pystr = "nat list"

definition asc :: "string \<Rightarrow> pystr" where
  "asc s = map of_char s"

datatype jval =
    JNull
  | JBool bool
  | JInt int
  | JStr pystr
  | JList "jval list"
  | JObj "(pystr \<times> jval) list"

type_synonym pydict = "(pystr \<times> jval) list"

text \<open>The exceptions of the source, as values. \<open>ClientError\<close> stands for whatever an
  adapter call (document store, blob store) raises.\<close>

datatype error = ClientError | AttributeError | TypeError | KeyError | ValueError | IndexError

text \<open>\<^verbatim>\<open>d.get(k, default)\<close>, \<^verbatim>\<open>d[k]\<close> and \<^verbatim>\<open>d[k] = v\<close>.\<close>

definition dget :: "pydict \<Rightarrow> pystr \<Rightarrow> jval \<Rightarrow> jval" where
  "dget d k dflt = (case map_of d k of None \<Rightarrow> dflt | Some v \<Rightarrow> v)"

definition dindex :: "pydict \<Rightarrow> pystr \<Rightarrow> error + jval" where
  "dindex d k = (case map_of d k of None \<Rightarrow> Inl KeyError | Some v \<Rightarrow> Inr v)"

fun dset :: "pydict \<Rightarrow> pystr \<Rightarrow> jval \<Rightarrow> pydict" where
  "dset [] k v = [(k, v)]"
| "dset ((k', v') # d) k v = (if k' = k then (k, v) # d else (k', v') # dset d k v)"

text \<open>Truth value testing (\<^verbatim>\<open>if x:\<close>).\<close>

fun truthy :: "jval \<Rightarrow> bool" where
  "truthy JNull = False"
| "truthy (JBool b) = b"
| "truthy (JInt n) = (n \<noteq> 0)"
| "truthy (JStr s) = (s \<noteq> [])"
| "truthy (JList xs) = (xs \<noteq> [])"
| "truthy (JObj kvs) = (kvs \<noteq> [])"

text \<open>
  \<^verbatim>\<open>_convert_decimals\<close> turns the store's Decimal numbers into int or float, and
  \<^verbatim>\<open>_sanitize_for_ddb\<close> turns floats into Decimals. Both walk dicts and lists and
  return every other value as it is; an integral number stays the same integer.
\<close>

fun convert_decimals :: "jval \<Rightarrow> jval" where
  "convert_decimals (JObj kvs) = JObj (map (\<lambda>kv. (fst kv, convert_decimals (snd kv))) kvs)"
| "convert_decimals (JList xs) = JList (map convert_decimals xs)"
| "convert_decimals (JInt n) = JInt n"
| "convert_decimals v = v"

fun sanitize_for_ddb :: "jval \<Rightarrow> jval" where
  "sanitize_for_ddb (JObj kvs) = JObj (map (\<lambda>kv. (fst kv, sanitize_for_ddb (snd kv))) kvs)"
| "sanitize_for_ddb (JList xs) = JList (map sanitize_for_ddb xs)"
| "sanitize_for_ddb v = v"

definition convert_item :: "pydict \<Rightarrow> pydict" where
  "convert_item d = (case convert_decimals (JObj d) of JObj d' \<Rightarrow> d' | _ \<Rightarrow> d)"

definition sanitize_item :: "pydict \<Rightarrow> pydict" where
  "sanitize_item d = (case sanitize_for_ddb (JObj d) of JObj d' \<Rightarrow> d' | _ \<Rightarrow> d)"

section \<open>The persistence adapter\<close>

text \<open>
  Three tables of items and a blob store. A table is the list of its items; the items of
  the conversations table stand in the order of its time index. \<open>faults\<close> is the
  schedule of adapter failures: each adapter call takes the head of the list, and raises
  when it is \<open>True\<close>; an empty schedule means that no call fails.
\<close>

record store =
  users :: "pydict list"
  conversations :: "pydict list"
  memories :: "pydict list"
  blobs :: "(pystr \<times> jval) list"
  faults :: "bool list"

datatype table = Users | Conversations | Memories

fun rows :: "table \<Rightarrow> store \<Rightarrow> pydict list" where
  "rows Users s = users s"
| "rows Conversations s = conversations s"
| "rows Memories s = memories s"

fun set_rows :: "table \<Rightarrow> pydict list \<Rightarrow> store \<Rightarrow> store" where
  "set_rows Users r s = s\<lparr>users := r\<rparr>"
| "set_rows Conversations r s = s\<lparr>conversations := r\<rparr>"
| "set_rows Memories r s = s\<lparr>memories := r\<rparr>"

definition adapter_call :: "store \<Rightarrow> bool \<times> store" where
  "adapter_call s = (case faults s of [] \<Rightarrow> (False, s) | f # fs \<Rightarrow> (f, s\<lparr>faults := fs\<rparr>))"

text \<open>No adapter call fails.\<close>

definition quiet :: "store \<Rightarrow> bool" where
  "quiet s = (True \<notin> set (faults s))"

text \<open>A primary key is a list of attribute names with their string values.\<close>

type_synonym pkey = "(pystr \<times> pystr) list"

definition has_key :: "pkey \<Rightarrow> pydict \<Rightarrow> bool" where
  "has_key key item = list_all (\<lambda>av. map_of item (fst av) = Some (JStr (snd av))) key"

definition tbl_get :: "pkey \<Rightarrow> pydict list \<Rightarrow> pydict option" where
  "tbl_get key items = find (has_key key) items"

text \<open>\<^verbatim>\<open>put_item\<close> replaces the item stored under the key, or adds the item.\<close>

definition tbl_put :: "pkey \<Rightarrow> pydict \<Rightarrow> pydict list \<Rightarrow> pydict list" where
  "tbl_put key item items =
     (if list_ex (has_key key) items
      then map (\<lambda>i. if has_key key i then item else i) items
      else items @ [item])"

text \<open>
  The right-hand sides of a \<^verbatim>\<open>SET\<close> update expression that the source uses: a value, and
  \<^verbatim>\<open>if_not_exists(attr, :zero) + :one\<close>. An addition on an attribute that is not a number
  is rejected by the store.
\<close>

datatype setval = Lit jval | IfNotExistsPlus pystr int int

fun eval_setval :: "pydict \<Rightarrow> setval \<Rightarrow> error + jval" where
  "eval_setval item (Lit v) = Inr v"
| "eval_setval item (IfNotExistsPlus a z n) =
     (case map_of item a of
        None \<Rightarrow> Inr (JInt (z + n))
      | Some (JInt m) \<Rightarrow> Inr (JInt (m + n))
      | Some _ \<Rightarrow> Inl ClientError)"

fun apply_sets :: "pydict \<Rightarrow> pydict \<Rightarrow> (pystr \<times> setval) list \<Rightarrow> error + pydict" where
  "apply_sets orig item [] = Inr item"
| "apply_sets orig item ((a, e) # rest) =
     (case eval_setval orig e of
        Inl err \<Rightarrow> Inl err
      | Inr v \<Rightarrow> apply_sets orig (dset item a v) rest)"

text \<open>\<^verbatim>\<open>update_item\<close> changes the item stored under the key; when there is none, it creates
  one from the key's attributes.\<close>

definition tbl_update :: "pkey \<Rightarrow> (pystr \<times> setval) list \<Rightarrow> pydict list \<Rightarrow> error + pydict list" where
  "tbl_update key sets items =
     (case tbl_get key items of
        None \<Rightarrow>
          (let fresh = map (\<lambda>av. (fst av, JStr (snd av))) key in
           case apply_sets fresh fresh sets of
             Inl err \<Rightarrow> Inl err
           | Inr item \<Rightarrow> Inr (items @ [item]))
      | Some old \<Rightarrow>
          (case apply_sets old old sets of
             Inl err \<Rightarrow> Inl err
           | Inr item \<Rightarrow> Inr (map (\<lambda>i. if has_key key i then item else i) items)))"

definition get_item :: "table \<Rightarrow> pkey \<Rightarrow> store \<Rightarrow> (error + pydict option) \<times> store" where
  "get_item t key s =
     (case adapter_call s of
        (True, s1) \<Rightarrow> (Inl ClientError, s1)
      | (False, s1) \<Rightarrow> (Inr (tbl_get key (rows t s1)), s1))"

definition put_item :: "table \<Rightarrow> pkey \<Rightarrow> pydict \<Rightarrow> store \<Rightarrow> (error + unit) \<times> store" where
  "put_item t key item s =
     (case adapter_call s of
        (True, s1) \<Rightarrow> (Inl ClientError, s1)
      | (False, s1) \<Rightarrow> (Inr (), set_rows t (tbl_put key item (rows t s1)) s1))"

definition update_item :: "table \<Rightarrow> pkey \<Rightarrow> (pystr \<times> setval) list \<Rightarrow> store \<Rightarrow> (error + unit) \<times> store" where
  "update_item t key sets s =
     (case adapter_call s of
        (True, s1) \<Rightarrow> (Inl ClientError, s1)
      | (False, s1) \<Rightarrow>
          (case tbl_update key sets (rows t s1) of
             Inl err \<Rightarrow> (Inl err, s1)
           | Inr r \<Rightarrow> (Inr (), set_rows t r s1)))"

section \<open>User profiles\<close>

definition user_key :: "pystr \<Rightarrow> pkey" where
  "user_key user_id = [(asc ''user_id'', user_id)]"

text \<open>\<^verbatim>\<open>get_or_create_user\<close>. \<open>now\<close> is the reading of the clock.\<close>

definition get_or_create_user ::
  "pystr \<Rightarrow> store \<Rightarrow> pystr \<Rightarrow> pystr \<Rightarrow> pystr \<Rightarrow> (error + pydict) \<times> store" where
  "get_or_create_user now s user_id email display_name =
     (case get_item Users (user_key user_id) s of
        (Inl err, s1) \<Rightarrow> (Inl err, s1)
      | (Inr (Some item), s1) \<Rightarrow>
          (case update_item Users (user_key user_id)
                  [(asc ''last_login_at'', Lit (JStr now)),
                   (asc ''total_sessions'', IfNotExistsPlus (asc ''total_sessions'') 0 1)] s1 of
             (Inl err, s2) \<Rightarrow> (Inl err, s2)
           | (Inr _, s2) \<Rightarrow> (Inr (convert_item item), s2))
      | (Inr None, s1) \<Rightarrow>
          (let user =
             [(asc ''user_id'', JStr user_id),
              (asc ''email'', JStr email),
              (asc ''display_name'', JStr display_name),
              (asc ''nickname'', JStr []),
              (asc ''birthday'', JStr []),
              (asc ''interests'', JList []),
              (asc ''kpop_preferences'', JObj []),
              (asc ''preferred_topics'', JList []),
              (asc ''onboarding_complete'', JBool False),
              (asc ''onboarding_step'', JInt 0),
              (asc ''created_at'', JStr now),
              (asc ''updated_at'', JStr now),
              (asc ''last_login_at'', JStr now),
              (asc ''total_sessions'', JInt 1)]
           in case put_item Users (user_key user_id) user s1 of
                (Inl err, s2) \<Rightarrow> (Inl err, s2)
              | (Inr _, s2) \<Rightarrow> (Inr user, s2)))"

text \<open>\<^verbatim>\<open>get_user_profile\<close>: no handler around the lookup.\<close>

definition get_user_profile :: "store \<Rightarrow> pystr \<Rightarrow> (error + pydict option) \<times> store" where
  "get_user_profile s user_id =
     (case get_item Users (user_key user_id) s of
        (Inl err, s1) \<Rightarrow> (Inl err, s1)
      | (Inr (Some item), s1) \<Rightarrow> (Inr (Some (convert_item item)), s1)
      | (Inr None, s1) \<Rightarrow> (Inr None, s1))"

text \<open>\<^verbatim>\<open>update_user_profile\<close>: nothing for an empty dict; else one \<^verbatim>\<open>SET\<close> of every
  entry and of \<^verbatim>\<open>updated_at\<close>.\<close>

definition update_user_profile ::
  "pystr \<Rightarrow> store \<Rightarrow> pystr \<Rightarrow> pydict \<Rightarrow> (error + unit) \<times> store" where
  "update_user_profile now s user_id updates =
     (if updates = [] then (Inr (), s)
      else update_item Users (user_key user_id)
             (map (\<lambda>kv. (fst kv, Lit (snd kv))) (dset updates (asc ''updated_at'') (JStr now))) s)"

section \<open>The text-generation adapter\<close>

text \<open>
  A call of the language model either raises (\<open>CallFailed\<close>: transport failure, or a
  response envelope without the text) or yields the text of the reply. The prompt is built
  from the character and the messages without a step that can raise, and it decides
  nothing but the reply; the reply is therefore an input of every operation that calls
  the model. The functions of Python's library that the source calls on untyped data are
  parameters: \<^verbatim>\<open>json.loads\<close> (\<open>None\<close> when it raises), \<^verbatim>\<open>int\<close> on a string (\<open>None\<close>
  when it raises) and the text that formatting gives a value that is not a string.
\<close>

datatype llm_reply = CallFailed | Reply pystr

record pylib =
  json_loads :: "pystr \<Rightarrow> jval option"
  int_of_str :: "pystr \<Rightarrow> int option"
  str_of :: "jval \<Rightarrow> pystr"

definition fmt :: "pylib \<Rightarrow> jval \<Rightarrow> pystr" where
  "fmt lib v = (case v of JStr s \<Rightarrow> s | _ \<Rightarrow> str_of lib v)"

text \<open>\<^verbatim>\<open>int(x)\<close> on a value of the store.\<close>

definition py_int :: "pylib \<Rightarrow> jval \<Rightarrow> error + int" where
  "py_int lib v =
     (case v of
        JInt n \<Rightarrow> Inr n
      | JBool b \<Rightarrow> Inr (if b then 1 else 0)
      | JStr s \<Rightarrow> (case int_of_str lib s of None \<Rightarrow> Inl ValueError | Some n \<Rightarrow> Inr n)
      | _ \<Rightarrow> Inl TypeError)"

text \<open>\<^verbatim>\<open>x.get(k, default)\<close> on an untyped value: only a dict has the method.\<close>

definition jget :: "jval \<Rightarrow> pystr \<Rightarrow> jval \<Rightarrow> error + jval" where
  "jget v k dflt = (case v of JObj d \<Rightarrow> Inr (dget d k dflt) | _ \<Rightarrow> Inl AttributeError)"

text \<open>Iteration (\<^verbatim>\<open>for x in v\<close>): the elements of a list, the characters of a string, the
  keys of a dict.\<close>

definition py_iter :: "jval \<Rightarrow> error + jval list" where
  "py_iter v =
     (case v of
        JList xs \<Rightarrow> Inr xs
      | JStr s \<Rightarrow> Inr (map (\<lambda>c. JStr [c]) s)
      | JObj d \<Rightarrow> Inr (map (\<lambda>kv. JStr (fst kv)) d)
      | _ \<Rightarrow> Inl TypeError)"

text \<open>\<^verbatim>\<open>str.strip()\<close>, \<^verbatim>\<open>startswith\<close>, \<^verbatim>\<open>endswith\<close>.\<close>

definition is_space :: "nat \<Rightarrow> bool" where
  "is_space c =
     (c \<in> set [9, 10, 11, 12, 13, 28, 29, 30, 31, 32, 133, 160, 5760, 8232, 8233, 8239,
                  8287, 12288] \<or> (8192 \<le> c \<and> c \<le> 8202))"

definition py_strip :: "pystr \<Rightarrow> pystr" where
  "py_strip s = rev (dropWhile is_space (rev (dropWhile is_space s)))"

definition startswith :: "pystr \<Rightarrow> pystr \<Rightarrow> bool" where
  "startswith p s = (take (length p) s = p)"

definition endswith :: "pystr \<Rightarrow> pystr \<Rightarrow> bool" where
  "endswith p s = (length p \<le> length s \<and> drop (length s - length p) s = p)"

definition fence :: pystr where
  "fence = [96, 96, 96]"

text \<open>
  The removal of a code fence around the reply:
  \<^verbatim>\<open>text.split("\n", 1)[1]\<close> raises when the text has no line break.
\<close>

definition unfence :: "pystr \<Rightarrow> error + pystr" where
  "unfence t =
     (if startswith fence t then
        (if 10 \<in> set t then
           (let t1 = tl (dropWhile (\<lambda>c. c \<noteq> 10) t);
                t2 = (if endswith fence t1 then take (length t1 - 3) t1 else t1)
            in Inr (py_strip t2))
         else Inl IndexError)
      else Inr t)"

text \<open>The body of the \<^verbatim>\<open>try\<close> block shared by the three calls of the model.\<close>

definition parse_reply :: "pylib \<Rightarrow> llm_reply \<Rightarrow> error + jval" where
  "parse_reply lib r =
     (case r of
        CallFailed \<Rightarrow> Inl ClientError
      | Reply t \<Rightarrow>
          (case unfence (py_strip t) of
             Inl e \<Rightarrow> Inl e
           | Inr t' \<Rightarrow>
               (case json_loads lib t' of None \<Rightarrow> Inl ValueError | Some v \<Rightarrow> Inr v)))"

section \<open>The save pipeline\<close>

definition extraction_fallback :: jval where
  "extraction_fallback =
     JObj [(asc ''summary'', JStr []),
           (asc ''keywords'', JList []),
           (asc ''user_sentiment'', JStr (asc ''neutral'')),
           (asc ''new_user_info'', JObj []),
           (asc ''memories'', JList [])]"

text \<open>\<^verbatim>\<open>_extract_all_from_conversation\<close>: any exception gives the fallback.\<close>

definition extract_all_from_conversation ::
  "pylib \<Rightarrow> llm_reply \<Rightarrow> pystr \<Rightarrow> pydict list \<Rightarrow> jval" where
  "extract_all_from_conversation lib reply character messages =
     (case parse_reply lib reply of Inl _ \<Rightarrow> extraction_fallback | Inr v \<Rightarrow> v)"

definition put_object :: "pystr \<Rightarrow> jval \<Rightarrow> store \<Rightarrow> (error + unit) \<times> store" where
  "put_object path body s =
     (case adapter_call s of
        (True, s1) \<Rightarrow> (Inl ClientError, s1)
      | (False, s1) \<Rightarrow> (Inr (), s1\<lparr>blobs := dset (blobs s1) path body\<rparr>))"

definition log_message :: "pydict \<Rightarrow> jval" where
  "log_message m =
     JObj ([(asc ''role'', dget m (asc ''role'') (JStr (asc ''user''))),
            (asc ''content'', dget m (asc ''content'') (JStr [])),
            (asc ''timestamp'', dget m (asc ''timestamp'') (JStr []))]
           @ (case map_of m (asc ''selected_emotion'') of
                None \<Rightarrow> []
              | Some e \<Rightarrow> [(asc ''selected_emotion'', e)]))"

definition conversation_id_of :: "pystr \<Rightarrow> pystr \<Rightarrow> pystr" where
  "conversation_id_of character session_start = character @ [35] @ session_start"

definition s3_log_path_of :: "pystr \<Rightarrow> pystr \<Rightarrow> pystr" where
  "s3_log_path_of user_id conversation_id =
     asc ''chat-logs/'' @ user_id @ [47] @ conversation_id @ asc ''.json''"

definition log_data_full ::
  "pystr \<Rightarrow> pystr \<Rightarrow> pystr \<Rightarrow> pystr \<Rightarrow> pydict list \<Rightarrow> jval" where
  "log_data_full now user_id character session_start messages =
     JObj [(asc ''user_id'', JStr user_id),
           (asc ''character'', JStr character),
           (asc ''session_start'', JStr session_start),
           (asc ''session_end'', JStr now),
           (asc ''message_count'', JInt (int (length messages))),
           (asc ''messages'', JList (map log_message messages))]"

definition log_data_incremental ::
  "pystr \<Rightarrow> pystr \<Rightarrow> pystr \<Rightarrow> pydict list \<Rightarrow> jval" where
  "log_data_incremental user_id character session_start messages =
     JObj [(asc ''user_id'', JStr user_id),
           (asc ''character'', JStr character),
           (asc ''session_start'', JStr session_start),
           (asc ''message_count'', JInt (int (length messages))),
           (asc ''messages'', JList (map log_message messages))]"

text \<open>
  The key of the conversations table is not declared in the repository; the data model
  gives the record the user id and the composite id of character and session start,
  and the memories table is addressed by user id and memory id in \<^verbatim>\<open>update_item\<close>.
\<close>

definition conv_key :: "pystr \<Rightarrow> pystr \<Rightarrow> pkey" where
  "conv_key user_id conversation_id =
     [(asc ''user_id'', user_id), (asc ''conversation_id'', conversation_id)]"

definition memory_key :: "pystr \<Rightarrow> pystr \<Rightarrow> pkey" where
  "memory_key user_id memory_id =
     [(asc ''user_id'', user_id), (asc ''memory_id'', memory_id)]"

definition conv_item ::
  "pystr \<Rightarrow> pystr \<Rightarrow> pystr \<Rightarrow> pystr \<Rightarrow> pydict list \<Rightarrow> pydict \<Rightarrow> pydict" where
  "conv_item now user_id character session_start messages e =
     [(asc ''user_id'', JStr user_id),
      (asc ''conversation_id'', JStr (conversation_id_of character session_start)),
      (asc ''character'', JStr character),
      (asc ''session_start'', JStr session_start),
      (asc ''session_end'', JStr now),
      (asc ''message_count'', JInt (int (length messages))),
      (asc ''summary'', dget e (asc ''summary'') (JStr [])),
      (asc ''keywords'', dget e (asc ''keywords'') (JList [])),
      (asc ''user_sentiment'', dget e (asc ''user_sentiment'') (JStr (asc ''neutral''))),
      (asc ''topics_discussed'', dget e (asc ''keywords'') (JList [])),
      (asc ''s3_log_path'',
         JStr (s3_log_path_of user_id (conversation_id_of character session_start))),
      (asc ''new_user_info'', dget e (asc ''new_user_info'') (JObj []))]"

definition mem_item :: "pystr \<Rightarrow> pystr \<Rightarrow> pystr \<Rightarrow> pystr \<Rightarrow> pydict \<Rightarrow> pydict" where
  "mem_item now user_id conversation_id memory_id m =
     [(asc ''user_id'', JStr user_id),
      (asc ''memory_id'', JStr memory_id),
      (asc ''character'', dget m (asc ''character'') (JStr (asc ''global''))),
      (asc ''category'', dget m (asc ''category'') (JStr (asc ''fact''))),
      (asc ''content'', dget m (asc ''content'') (JStr [])),
      (asc ''importance'', dget m (asc ''importance'') (JInt 3)),
      (asc ''source_conversation'', JStr conversation_id),
      (asc ''created_at'', JStr now),
      (asc ''last_referenced'', JStr now),
      (asc ''reference_count'', JInt 0),
      (asc ''active'', JBool True)]"

text \<open>
  Step 4 of \<^verbatim>\<open>save_conversation\<close>: one item per extracted memory. \<open>fresh i\<close> is the
  random suffix (\<^verbatim>\<open>uuid.uuid4().hex[:12]\<close>) drawn for the \<open>i\<close>-th memory. A failed write is
  logged and the loop goes on; a memory that is not a dict ends the loop with the
  exception of \<^verbatim>\<open>mem.get\<close>.
\<close>

fun save_memories ::
  "pylib \<Rightarrow> pystr \<Rightarrow> (nat \<Rightarrow> pystr) \<Rightarrow> pystr \<Rightarrow> pystr \<Rightarrow> nat \<Rightarrow> jval list \<Rightarrow> store
     \<Rightarrow> (error + unit) \<times> store" where
  "save_memories lib now fresh user_id conversation_id i [] s = (Inr (), s)"
| "save_memories lib now fresh user_id conversation_id i (mem # rest) s =
     (case mem of
        JObj m \<Rightarrow>
          (let memory_char = dget m (asc ''character'') (JStr (asc ''global''));
               memory_id = fmt lib memory_char @ [35] @ fresh i;
               item = mem_item now user_id conversation_id memory_id m;
               s1 = snd (put_item Memories (memory_key user_id memory_id) (sanitize_item item) s)
           in save_memories lib now fresh user_id conversation_id (Suc i) rest s1)
      | _ \<Rightarrow> (Inl AttributeError, s))"

text \<open>Step 5: the profile fields taken from \<^verbatim>\<open>new_user_info\<close>.\<close>

definition profile_updates_of :: "jval \<Rightarrow> error + pydict" where
  "profile_updates_of new_info =
     (if truthy new_info then
        (case new_info of
           JObj ni \<Rightarrow>
             (let u0 = [];
                  u1 = (if truthy (dget ni (asc ''favorite_group'') JNull)
                        then dset u0 (asc ''kpop_preferences'') new_info else u0);
                  u2 = (if truthy (dget ni (asc ''birthday'') JNull)
                        then dset u1 (asc ''birthday'') (dget ni (asc ''birthday'') JNull) else u1);
                  u3 = (if truthy (dget ni (asc ''nickname'') JNull)
                        then dset u2 (asc ''nickname'') (dget ni (asc ''nickname'') JNull) else u2)
              in Inr u3)
         | _ \<Rightarrow> Inl AttributeError)
      else Inr [])"

definition save_conversation ::
  "pylib \<Rightarrow> pystr \<Rightarrow> (nat \<Rightarrow> pystr) \<Rightarrow> llm_reply \<Rightarrow> store \<Rightarrow> pystr \<Rightarrow> pystr \<Rightarrow> pydict list
     \<Rightarrow> pystr \<Rightarrow> (error + unit) \<times> store" where
  "save_conversation lib now fresh reply s user_id character messages session_start =
     (if messages = [] \<or> length messages < 2 then (Inr (), s)
      else
        (let conversation_id = conversation_id_of character session_start;
             extraction = extract_all_from_conversation lib reply character messages;
             s3_log_path = s3_log_path_of user_id conversation_id;
             log_data = log_data_full now user_id character session_start messages;
             s1 = snd (put_object s3_log_path log_data s)
         in case extraction of
              JObj e \<Rightarrow>
                (let s2 = snd (put_item Conversations (conv_key user_id conversation_id)
                                 (sanitize_item
                                    (conv_item now user_id character session_start messages e)) s1)
                 in case py_iter (dget e (asc ''memories'') (JList [])) of
                      Inl err \<Rightarrow> (Inl err, s2)
                    | Inr mems \<Rightarrow>
                        (case save_memories lib now fresh user_id conversation_id 0 mems s2 of
                           (Inl err, s3) \<Rightarrow> (Inl err, s3)
                         | (Inr _, s3) \<Rightarrow>
                             (case profile_updates_of (dget e (asc ''new_user_info'') (JObj [])) of
                                Inl err \<Rightarrow> (Inl err, s3)
                              | Inr ups \<Rightarrow>
                                  (if ups = [] then (Inr (), s3)
                                   else update_user_profile now s3 user_id ups))))
            | _ \<Rightarrow> (Inl AttributeError, s1)))"

text \<open>\<^verbatim>\<open>save_messages_incremental\<close>: the transcript only.\<close>

definition save_messages_incremental ::
  "store \<Rightarrow> pystr \<Rightarrow> pystr \<Rightarrow> pydict list \<Rightarrow> pystr \<Rightarrow> store" where
  "save_messages_incremental s user_id character messages session_start =
     (if messages = [] then s
      else snd (put_object
                  (s3_log_path_of user_id (conversation_id_of character session_start))
                  (log_data_incremental user_id character session_start messages) s))"

section \<open>The memory ranker\<close>

text \<open>
  A query of the character index of the memories table: the active items of the user
  under one scope, in the order of the table.
\<close>

definition mem_query :: "pystr \<Rightarrow> pystr \<Rightarrow> pydict list \<Rightarrow> pydict list" where
  "mem_query user_id character items =
     filter (\<lambda>i. map_of i (asc ''user_id'') = Some (JStr user_id)
                \<and> map_of i (asc ''character'') = Some (JStr character)
                \<and> map_of i (asc ''active'') = Some (JBool True)) items"

definition query_memories :: "pystr \<Rightarrow> pystr \<Rightarrow> store \<Rightarrow> (error + pydict list) \<times> store" where
  "query_memories user_id character s =
     (case adapter_call s of
        (True, s1) \<Rightarrow> (Inl ClientError, s1)
      | (False, s1) \<Rightarrow> (Inr (mem_query user_id character (memories s1)), s1))"

text \<open>The sort key \<^verbatim>\<open>int(x.get("importance", 0))\<close>.\<close>

definition importance_key :: "pylib \<Rightarrow> pydict \<Rightarrow> error + int" where
  "importance_key lib m = py_int lib (dget m (asc ''importance'') (JInt 0))"

fun collect :: "(error + 'a) list \<Rightarrow> error + 'a list" where
  "collect [] = Inr []"
| "collect (x # xs) =
     (case x of
        Inl e \<Rightarrow> Inl e
      | Inr v \<Rightarrow> (case collect xs of Inl e \<Rightarrow> Inl e | Inr vs \<Rightarrow> Inr (v # vs)))"

text \<open>
  \<^verbatim>\<open>all_mems.sort(key=..., reverse=True)\<close>: the keys are computed first (an exception
  leaves the sort), then the list is sorted by descending key, equal keys keeping their
  order.
\<close>

definition sort_by_importance :: "pylib \<Rightarrow> pydict list \<Rightarrow> error + pydict list" where
  "sort_by_importance lib ms =
     (case collect (map (importance_key lib) ms) of
        Inl e \<Rightarrow> Inl e
      | Inr ks \<Rightarrow> Inr (map snd (sort_key (\<lambda>p. - fst p) (zip ks ms))))"

text \<open>The slice \<^verbatim>\<open>xs[:n]\<close>; a negative \<open>n\<close> counts from the end.\<close>

definition py_take :: "int \<Rightarrow> 'a list \<Rightarrow> 'a list" where
  "py_take n xs = (if 0 \<le> n then take (nat n) xs else take (length xs - nat (- n)) xs)"

text \<open>
  The update of the reference metadata of the items of the slice. Every exception of
  an iteration (a missing \<^verbatim>\<open>memory_id\<close>, a failed \<^verbatim>\<open>update_item\<close>) is swallowed. All
  readings of the clock during one operation are the one value \<open>now\<close>.
\<close>

fun touch_memories :: "pystr \<Rightarrow> pystr \<Rightarrow> pydict list \<Rightarrow> store \<Rightarrow> store" where
  "touch_memories now user_id [] s = s"
| "touch_memories now user_id (m # ms) s =
     touch_memories now user_id ms
       (case map_of m (asc ''memory_id'') of
          Some (JStr mid) \<Rightarrow>
            snd (update_item Memories (memory_key user_id mid)
                   [(asc ''reference_count'', IfNotExistsPlus (asc ''reference_count'') 0 1),
                    (asc ''last_referenced'', Lit (JStr now))] s)
        | _ \<Rightarrow> s)"

text \<open>\<^verbatim>\<open>_get_top_memories\<close>.\<close>

definition get_top_memories ::
  "pylib \<Rightarrow> pystr \<Rightarrow> store \<Rightarrow> pystr \<Rightarrow> pystr \<Rightarrow> int \<Rightarrow> pydict list \<times> store" where
  "get_top_memories lib now s user_id character limit =
     (case query_memories user_id (asc ''global'') s of
        (Inl _, s1) \<Rightarrow> ([], s1)
      | (Inr global_mems, s1) \<Rightarrow>
          (case query_memories user_id character s1 of
             (Inl _, s2) \<Rightarrow> ([], s2)
           | (Inr char_mems, s2) \<Rightarrow>
               (case sort_by_importance lib (global_mems @ char_mems) of
                  Inl _ \<Rightarrow> ([], s2)
                | Inr all_mems \<Rightarrow>
                    (map convert_item (py_take limit all_mems),
                     touch_memories now user_id (py_take limit all_mems) s2))))"

text \<open>
  \<^verbatim>\<open>_get_recent_summaries\<close>. The time index of the conversations table is not declared
  in the repository; by the contract of the recent summaries it gives the records of one
  user, most recent session start first, and the table holds the records in ascending
  order of the index. The store applies \<^verbatim>\<open>Limit\<close> before the filter on the character,
  and refuses a limit below one.
\<close>

definition get_recent_summaries ::
  "store \<Rightarrow> pystr \<Rightarrow> pystr \<Rightarrow> int \<Rightarrow> pydict list \<times> store" where
  "get_recent_summaries s user_id character limit =
     (if limit < 1 then ([], s)
      else
        (case adapter_call s of
           (True, s1) \<Rightarrow> ([], s1)
         | (False, s1) \<Rightarrow>
             (map convert_item
                (filter (\<lambda>i. map_of i (asc ''character'') = Some (JStr character))
                   (take (nat limit)
                      (rev (filter (\<lambda>i. map_of i (asc ''user_id'') = Some (JStr user_id))
                              (conversations s1))))),
              s1)))"

section \<open>The context assembler\<close>

text \<open>The literals of \<^verbatim>\<open>build_memory_context\<close>, by their code points: the truncation
  marker, the labels of the profile lines, and the headings of the sections.\<close>

definition truncation_marker :: pystr where
  "truncation_marker =
     [10, 46, 46, 46, 32, 40, 51068, 48512, 32, 49373, 47029, 41]"

definition lbl_nickname :: pystr where
  "lbl_nickname =
     [51060, 47492, 47, 45769, 45348, 51076, 58, 32]"

definition lbl_male :: pystr where
  "lbl_male =
     [45224, 49457]"

definition lbl_female :: pystr where
  "lbl_female =
     [50668, 49457]"

definition lbl_gender :: pystr where
  "lbl_gender =
     [49457, 48324, 58, 32]"

definition lbl_birthday :: pystr where
  "lbl_birthday =
     [49373, 45380, 50900, 51068, 58, 32]"

definition lbl_interests :: pystr where
  "lbl_interests =
     [44288, 49900, 49324, 58, 32]"

definition lbl_kpop :: pystr where
  "lbl_kpop =
     [52992, 51060, 54045, 32]"

definition lbl_topics :: pystr where
  "lbl_topics =
     [49440, 54840, 32, 51452, 51228, 58, 32]"

definition hdr_profile :: pystr where
  "hdr_profile =
     [91, 49324, 50857, 51088, 32, 54532, 47196, 54596, 93, 10]"

definition hdr_critical :: pystr where
  "hdr_critical =
     [9733, 9733, 9733, 32, 52572, 50864, 49440, 32, 54665, 46041, 32, 51648, 49884, 32, 40,
      48152, 46300, 49884, 32, 46384, 47484, 32, 44163, 41, 32, 9733, 9733, 9733]"

definition pfx_critical :: pystr where
  "pfx_critical =
     [32, 32, 8594, 32]"

definition hdr_normal :: pystr where
  "hdr_normal =
     [91, 52280, 44256, 32, 44592, 50613, 93]"

definition hdr_memories :: pystr where
  "hdr_memories =
     [91, 44592, 50613, 54616, 44256, 32, 51080, 45716, 32, 51221, 48372, 93, 10]"

definition hdr_summaries :: pystr where
  "hdr_summaries =
     [91, 51060, 51204, 32, 45824, 54868, 32, 50836, 50557, 93, 10]"

fun py_join :: "pystr \<Rightarrow> pystr list \<Rightarrow> pystr" where
  "py_join sep [] = []"
| "py_join sep [x] = x"
| "py_join sep (x # y # ys) = x @ sep @ py_join sep (y # ys)"

fun as_strs :: "jval list \<Rightarrow> error + pystr list" where
  "as_strs [] = Inr []"
| "as_strs (v # vs) =
     (case v of
        JStr x \<Rightarrow> (case as_strs vs of Inl e \<Rightarrow> Inl e | Inr xs \<Rightarrow> Inr (x # xs))
      | _ \<Rightarrow> Inl TypeError)"

text \<open>\<^verbatim>\<open>', '.join(v)\<close> on an untyped value.\<close>

definition join_val :: "jval \<Rightarrow> error + pystr" where
  "join_val v =
     (case py_iter v of
        Inl e \<Rightarrow> Inl e
      | Inr xs \<Rightarrow> (case as_strs xs of Inl e \<Rightarrow> Inl e | Inr ss \<Rightarrow> Inr (py_join [44, 32] ss)))"

definition joined_line :: "pystr \<Rightarrow> pydict \<Rightarrow> pystr \<Rightarrow> error + pystr list" where
  "joined_line lbl profile k =
     (if truthy (dget profile k JNull) then
        (case join_val (dget profile k JNull) of Inl e \<Rightarrow> Inl e | Inr t \<Rightarrow> Inr [lbl @ t])
      else Inr [])"

fun kpop_lines :: "pydict \<Rightarrow> error + pystr list" where
  "kpop_lines [] = Inr []"
| "kpop_lines ((k, v) # rest) =
     (if truthy v then
        (case (case v of JStr sv \<Rightarrow> Inr sv | _ \<Rightarrow> join_val v) of
           Inl e \<Rightarrow> Inl e
         | Inr t \<Rightarrow>
             (case kpop_lines rest of
                Inl e \<Rightarrow> Inl e
              | Inr ls \<Rightarrow> Inr ((lbl_kpop @ k @ [58, 32] @ t) # ls)))
      else kpop_lines rest)"

definition profile_lines :: "pylib \<Rightarrow> pydict \<Rightarrow> error + pystr list" where
  "profile_lines lib profile =
     (let l1 = (if truthy (dget profile (asc ''nickname'') JNull)
                then [lbl_nickname @ fmt lib (dget profile (asc ''nickname'') JNull)] else []);
          l2 = (if truthy (dget profile (asc ''gender'') JNull)
                then [lbl_gender @ (if dget profile (asc ''gender'') JNull = JStr (asc ''male'')
                                    then lbl_male else lbl_female)] else []);
          l3 = (if truthy (dget profile (asc ''birthday'') JNull)
                then [lbl_birthday @ fmt lib (dget profile (asc ''birthday'') JNull)] else [])
      in case joined_line lbl_interests profile (asc ''interests'') of
           Inl e \<Rightarrow> Inl e
         | Inr l4 \<Rightarrow>
             (case (if truthy (dget profile (asc ''kpop_preferences'') (JObj []))
                    then (case dget profile (asc ''kpop_preferences'') (JObj []) of
                            JObj kpop \<Rightarrow> kpop_lines kpop
                          | _ \<Rightarrow> Inr [])
                    else Inr []) of
                Inl e \<Rightarrow> Inl e
              | Inr l5 \<Rightarrow>
                  (case joined_line lbl_topics profile (asc ''preferred_topics'') of
                     Inl e \<Rightarrow> Inl e
                   | Inr l6 \<Rightarrow> Inr (l1 @ l2 @ l3 @ l4 @ l5 @ l6))))"

definition profile_section :: "pylib \<Rightarrow> pydict option \<Rightarrow> error + pystr list" where
  "profile_section lib profile =
     (case profile of
        None \<Rightarrow> Inr []
      | Some p \<Rightarrow>
          (if p = [] then Inr []
           else (case profile_lines lib p of
                   Inl e \<Rightarrow> Inl e
                 | Inr ls \<Rightarrow> Inr (if ls = [] then [] else [hdr_profile @ py_join [10] ls]))))"

fun critical_lines :: "pylib \<Rightarrow> pydict list \<Rightarrow> error + pystr list" where
  "critical_lines lib [] = Inr []"
| "critical_lines lib (m # ms) =
     (case dindex m (asc ''content'') of
        Inl e \<Rightarrow> Inl e
      | Inr c \<Rightarrow>
          (case critical_lines lib ms of
             Inl e \<Rightarrow> Inl e
           | Inr ls \<Rightarrow> Inr ((pfx_critical @ fmt lib c) # ls)))"

fun normal_lines :: "pylib \<Rightarrow> pydict list \<Rightarrow> error + pystr list" where
  "normal_lines lib [] = Inr []"
| "normal_lines lib (m # ms) =
     (case dindex m (asc ''category'') of
        Inl e \<Rightarrow> Inl e
      | Inr cat \<Rightarrow>
          (case dindex m (asc ''content'') of
             Inl e \<Rightarrow> Inl e
           | Inr c \<Rightarrow>
               (case normal_lines lib ms of
                  Inl e \<Rightarrow> Inl e
                | Inr ls \<Rightarrow> Inr ((asc ''- ['' @ fmt lib cat @ asc ''] '' @ fmt lib c) # ls))))"

definition memory_section :: "pylib \<Rightarrow> pydict list \<Rightarrow> error + pystr list" where
  "memory_section lib mems =
     (if mems = [] then Inr []
      else
        (case collect (map (importance_key lib) mems) of
           Inl e \<Rightarrow> Inl e
         | Inr ks \<Rightarrow>
             (let critical = map snd (filter (\<lambda>p. 5 \<le> fst p) (zip ks mems));
                  normal = map snd (filter (\<lambda>p. fst p < 5) (zip ks mems))
              in case critical_lines lib critical of
                   Inl e \<Rightarrow> Inl e
                 | Inr cl \<Rightarrow>
                     (case normal_lines lib normal of
                        Inl e \<Rightarrow> Inl e
                      | Inr nl \<Rightarrow>
                          Inr [hdr_memories @ py_join [10]
                                 ((if critical = [] then [] else hdr_critical # cl @ [[]])
                                  @ (if normal = [] then [] else hdr_normal # nl))]))))"

text \<open>The slice \<^verbatim>\<open>v[:n]\<close> of an untyped value.\<close>

definition py_slice :: "nat \<Rightarrow> jval \<Rightarrow> error + jval" where
  "py_slice n v =
     (case v of
        JStr x \<Rightarrow> Inr (JStr (take n x))
      | JList xs \<Rightarrow> Inr (JList (take n xs))
      | _ \<Rightarrow> Inl TypeError)"

fun summary_lines :: "pylib \<Rightarrow> pydict list \<Rightarrow> error + pystr list" where
  "summary_lines lib [] = Inr []"
| "summary_lines lib (r # rs) =
     (if truthy (dget r (asc ''summary'') JNull) then
        (case dindex r (asc ''session_start'') of
           Inl e \<Rightarrow> Inl e
         | Inr st \<Rightarrow>
             (case py_slice 10 st of
                Inl e \<Rightarrow> Inl e
              | Inr day \<Rightarrow>
                  (case summary_lines lib rs of
                     Inl e \<Rightarrow> Inl e
                   | Inr ls \<Rightarrow>
                       Inr ((asc ''- ('' @ fmt lib day @ asc '') ''
                             @ fmt lib (dget r (asc ''summary'') JNull)) # ls))))
      else summary_lines lib rs)"

definition summary_section :: "pylib \<Rightarrow> pydict list \<Rightarrow> error + pystr list" where
  "summary_section lib summaries =
     (case summary_lines lib summaries of
        Inl e \<Rightarrow> Inl e
      | Inr ls \<Rightarrow> Inr (if ls = [] then [] else [hdr_summaries @ py_join [10] ls]))"

text \<open>The end of \<^verbatim>\<open>build_memory_context\<close>: the empty string for no part, else the parts
  joined and cut at 4000 characters.\<close>

definition finish_context :: "pystr list \<Rightarrow> pystr" where
  "finish_context parts =
     (if parts = [] then []
      else (let context = py_join [10, 10] parts
            in if 4000 < length context then take 4000 context @ truncation_marker
               else context))"

definition build_memory_context ::
  "pylib \<Rightarrow> pystr \<Rightarrow> store \<Rightarrow> pystr \<Rightarrow> pystr \<Rightarrow> (error + pystr) \<times> store" where
  "build_memory_context lib now s user_id character =
     (case get_user_profile s user_id of
        (Inl e, s1) \<Rightarrow> (Inl e, s1)
      | (Inr profile, s1) \<Rightarrow>
          (case profile_section lib profile of
             Inl e \<Rightarrow> (Inl e, s1)
           | Inr part1 \<Rightarrow>
               (case get_top_memories lib now s1 user_id character 15 of
                  (mems, s2) \<Rightarrow>
                    (case memory_section lib mems of
                       Inl e \<Rightarrow> (Inl e, s2)
                     | Inr part2 \<Rightarrow>
                         (case get_recent_summaries s2 user_id character 5 of
                            (summaries, s3) \<Rightarrow>
                              (case summary_section lib summaries of
                                 Inl e \<Rightarrow> (Inl e, s3)
                               | Inr part3 \<Rightarrow>
                                   (Inr (finish_context (part1 @ part2 @ part3)), s3)))))))"

section \<open>Onboarding\<close>

text \<open>The instructions of \<^verbatim>\<open>ONBOARDING_STEPS\<close> and the fixed text of the prompt
  addition, by their code points.\<close>

definition instr0 :: pystr where
  "instr0 =
     [49324, 50857, 51088, 50640, 44172, 32, 51088, 44592, 49548, 44060, 47484, 32, 54616,
      47732, 49436, 32, 49324, 50857, 51088, 51032, 32, 51060, 47492, 51060, 45208, 32,
      45769, 45348, 51076, 51012, 32, 51088, 50672, 49828, 47101, 44172, 32, 47932,
      50612, 48372, 49464, 50836, 46]"

definition instr1 :: pystr where
  "instr1 =
     [45824, 54868, 32, 55120, 47492, 50640, 32, 47582, 52656, 32, 49324, 50857, 51088,
      51032, 32, 49373, 45380, 50900, 51068, 51012, 32, 51088, 50672, 49828, 47101,
      44172, 32, 47932, 50612, 48372, 49464, 50836, 46]"

definition instr2 :: pystr where
  "instr2 =
     [49324, 50857, 51088, 44032, 32, 51339, 50500, 54616, 45716, 32, 44163, 51060, 45208,
      32, 52712, 48120, 47484, 32, 51088, 50672, 49828, 47101, 44172, 32, 47932, 50612,
      48372, 49464, 50836, 46]"

definition instr3 :: pystr where
  "instr3 =
     [51339, 50500, 54616, 45716, 32, 52992, 51060, 54045, 32, 44536, 47353, 44, 32, 47716,
      48260, 44, 32, 51109, 47476, 32, 46321, 32, 52992, 51060, 54045, 32, 52712, 54693,
      51012, 32, 47932, 50612, 48372, 49464, 50836, 46]"

definition instr4 :: pystr where
  "instr4 =
     [50526, 51004, 47196, 32, 50612, 46500, 32, 51060, 50556, 44592, 47484, 32, 54616,
      44256, 32, 49910, 51008, 51648, 32, 51088, 50672, 49828, 47101, 44172, 32, 47932,
      50612, 48372, 49464, 50836, 46, 32, 51060, 44163, 51060, 32, 47560, 51648, 47561,
      32, 51656, 47928, 51077, 45768, 45796, 46]"

definition onb1 :: pystr where
  "onb1 =
     [10, 10, 91, 50728, 48372, 46377, 32, 51648, 49884, 93, 10, 51060, 32, 49324, 50857,
      51088, 45716, 32, 50500, 51649, 32, 54532, 47196, 54596, 32, 49688, 51665, 51060,
      32, 50756, 47308, 46104, 51648, 32, 50506, 50520, 49845, 45768, 45796, 46, 32, 40,
      54788, 51116, 32, 45800, 44228, 58, 32]"

definition onb2 :: pystr where
  "onb2 =
     [47, 52, 41, 10, 45824, 54868, 32, 51473, 32, 51088, 50672, 49828, 47101, 44172, 32,
      45796, 51020, 32, 51221, 48372, 47484, 32, 49688, 51665, 54644, 51452, 49464,
      50836, 58, 32]"

definition onb3 :: pystr where
  "onb3 =
     [10, 45320, 47924, 32, 51649, 51217, 51201, 51004, 47196, 32, 47931, 51648, 32, 47568,
      44256, 44, 32, 45824, 54868, 32, 55120, 47492, 50640, 32, 45433, 50668, 49436, 32,
      47932, 50612, 48372, 49464, 50836, 46]"

text \<open>\<^verbatim>\<open>ONBOARDING_STEPS\<close>: the field and the instruction of the steps 0 to 4.\<close>

definition onboarding_steps :: "int \<Rightarrow> (pystr \<times> pystr) option" where
  "onboarding_steps step =
     (if step = 0 then Some (asc ''nickname'', instr0)
      else if step = 1 then Some (asc ''birthday'', instr1)
      else if step = 2 then Some (asc ''interests'', instr2)
      else if step = 3 then Some (asc ''kpop_preferences'', instr3)
      else if step = 4 then Some (asc ''preferred_topics'', instr4)
      else None)"

text \<open>\<^verbatim>\<open>get_onboarding_prompt_addition\<close>. A step of the table is one decimal digit.\<close>

definition get_onboarding_prompt_addition ::
  "pylib \<Rightarrow> store \<Rightarrow> pystr \<Rightarrow> pystr \<Rightarrow> (error + pystr) \<times> store" where
  "get_onboarding_prompt_addition lib s user_id character =
     (case get_user_profile s user_id of
        (Inl e, s1) \<Rightarrow> (Inl e, s1)
      | (Inr None, s1) \<Rightarrow> (Inr [], s1)
      | (Inr (Some profile), s1) \<Rightarrow>
          (if profile = [] then (Inr [], s1)
           else if truthy (dget profile (asc ''onboarding_complete'') JNull) then (Inr [], s1)
           else
             (case py_int lib (dget profile (asc ''onboarding_step'') (JInt 0)) of
                Inl e \<Rightarrow> (Inl e, s1)
              | Inr step \<Rightarrow>
                  (case onboarding_steps step of
                     None \<Rightarrow> (Inr [], s1)
                   | Some (field, instruction) \<Rightarrow>
                       (Inr (onb1 @ [nat (48 + step)] @ onb2 @ instruction @ onb3), s1)))))"

text \<open>\<^verbatim>\<open>process_onboarding_response\<close>: the new step.\<close>

definition process_onboarding_response ::
  "pylib \<Rightarrow> pystr \<Rightarrow> llm_reply \<Rightarrow> store \<Rightarrow> pystr \<Rightarrow> pydict list \<Rightarrow> int \<Rightarrow> (error + int) \<times> store" where
  "process_onboarding_response lib now reply s user_id messages current_step =
     (case onboarding_steps current_step of
        None \<Rightarrow> (Inr current_step, s)
      | Some (field, instruction) \<Rightarrow>
          (case parse_reply lib reply of
             Inl _ \<Rightarrow> (Inr current_step, s)
           | Inr (JObj extracted) \<Rightarrow>
               (if \<not> truthy (dget extracted (asc ''step_complete'') (JBool False))
                then (Inr current_step, s)
                else
                  (let updates =
                         (if field = asc ''nickname'' \<and> truthy (dget extracted (asc ''nickname'') JNull)
                          then [(asc ''nickname'', dget extracted (asc ''nickname'') JNull)]
                          else if field = asc ''birthday'' \<and> truthy (dget extracted (asc ''birthday'') JNull)
                          then [(asc ''birthday'', dget extracted (asc ''birthday'') JNull)]
                          else if field = asc ''interests'' \<and> truthy (dget extracted (asc ''interests'') JNull)
                          then [(asc ''interests'', dget extracted (asc ''interests'') JNull)]
                          else if field = asc ''kpop_preferences''
                                  \<and> truthy (dget extracted (asc ''kpop_preferences'') JNull)
                          then [(asc ''kpop_preferences'', dget extracted (asc ''kpop_preferences'') JNull)]
                          else if field = asc ''preferred_topics''
                                  \<and> truthy (dget extracted (asc ''preferred_topics'') JNull)
                          then [(asc ''preferred_topics'', dget extracted (asc ''preferred_topics'') JNull)]
                          else []);
                       new_step = current_step + 1;
                       updates1 = dset updates (asc ''onboarding_step'') (JInt new_step);
                       updates2 = (if 4 < new_step
                                   then dset updates1 (asc ''onboarding_complete'') (JBool True)
                                   else updates1)
                   in case update_user_profile now s user_id updates2 of
                        (Inl e, s1) \<Rightarrow> (Inl e, s1)
                      | (Inr _, s1) \<Rightarrow> (Inr new_step, s1)))
           | Inr _ \<Rightarrow> (Inl AttributeError, s)))"

section \<open>Profile completion\<close>

definition instr_gender :: pystr where
  "instr_gender =
     [45824, 54868, 32, 55120, 47492, 50640, 32, 47582, 52656, 32, 49324, 50857, 51088,
      51032, 32, 49457, 48324, 51012, 32, 51088, 50672, 49828, 47101, 44172, 32, 54028,
      50501, 54616, 49464, 50836, 46, 32, 51649, 51217, 32, 47931, 44592, 48372, 45796,
      45716, 32, 39, 50724, 48736, 46972, 44256, 32, 48520, 47084, 46020, 32, 46112,
      44620, 50836, 63, 39, 32, 44057, 51008, 32, 51088, 50672, 49828, 47084, 50868, 32,
      48169, 49885, 51004, 47196, 32, 54869, 51064, 54616, 49464, 50836, 46]"

definition pc_header :: pystr where
  "pc_header =
     [10, 10, 91, 54532, 47196, 54596, 32, 48372, 50756, 32, 51648, 49884, 93, 10, 50500,
      51649, 32, 54028, 50501, 54616, 51648, 32, 47803, 54620, 32, 49324, 50857, 51088,
      32, 51221, 48372, 44032, 32, 51080, 49845, 45768, 45796, 46, 32, 45824, 54868, 32,
      51473, 32, 51088, 50672, 49828, 47101, 44172, 32, 54869, 51064, 54644, 51452,
      49464, 50836, 58, 10]"

text \<open>\<^verbatim>\<open>PROFILE_COMPLETION_FIELDS\<close>: the fields with their instructions.\<close>

definition profile_completion_fields :: "(pystr \<times> pystr) list" where
  "profile_completion_fields = [(asc ''gender'', instr_gender)]"

definition get_profile_completion_prompt ::
  "store \<Rightarrow> pystr \<Rightarrow> (error + pystr) \<times> store" where
  "get_profile_completion_prompt s user_id =
     (case get_user_profile s user_id of
        (Inl e, s1) \<Rightarrow> (Inl e, s1)
      | (Inr None, s1) \<Rightarrow> (Inr [], s1)
      | (Inr (Some profile), s1) \<Rightarrow>
          (if profile = [] then (Inr [], s1)
           else
             (let missing = map snd (filter (\<lambda>fc. \<not> truthy (dget profile (fst fc) JNull))
                                       profile_completion_fields)
              in if missing = [] then (Inr [], s1)
                 else (Inr (pc_header @ py_join [10] (map (\<lambda>m. asc ''- '' @ m) missing)), s1))))"

definition process_profile_completion ::
  "pylib \<Rightarrow> pystr \<Rightarrow> llm_reply \<Rightarrow> store \<Rightarrow> pystr \<Rightarrow> pydict list \<Rightarrow> (error + unit) \<times> store" where
  "process_profile_completion lib now reply s user_id messages =
     (case get_user_profile s user_id of
        (Inl e, s1) \<Rightarrow> (Inl e, s1)
      | (Inr None, s1) \<Rightarrow> (Inr (), s1)
      | (Inr (Some profile), s1) \<Rightarrow>
          (if profile = [] then (Inr (), s1)
           else
             (let missing_fields = filter (\<lambda>f. \<not> truthy (dget profile f JNull))
                                     (map fst profile_completion_fields)
              in if missing_fields = [] then (Inr (), s1)
                 else
                   (case parse_reply lib reply of
                      Inl _ \<Rightarrow> (Inr (), s1)
                    | Inr (JObj extracted) \<Rightarrow>
                        (if dget extracted (asc ''confidence'') JNull \<noteq> JStr (asc ''high'')
                         then (Inr (), s1)
                         else
                           (let gender = dget extracted (asc ''gender'') JNull;
                                updates =
                                  (if (gender = JStr (asc ''male'') \<or> gender = JStr (asc ''female''))
                                      \<and> asc ''gender'' \<in> set missing_fields
                                   then [(asc ''gender'', gender)] else [])
                            in if updates = [] then (Inr (), s1)
                               else update_user_profile now s1 user_id updates))
                    | Inr _ \<Rightarrow> (Inl AttributeError, s1)))))"

section \<open>Example data\<close>

text \<open>
  A library for the examples: \<^verbatim>\<open>json.loads\<close> on the few texts the examples use,
  \<^verbatim>\<open>int\<close> on no string, and an empty rendering of values that are not strings.
\<close>

definition ex_lib :: pylib where
  "ex_lib =
     \<lparr>json_loads = map_of
        [(asc ''{}'', JObj []),
         (asc ''{\"step_complete\": true}'', JObj [(asc ''step_complete'', JBool True)]),
         (asc ''{\"step_complete\": true, \"nickname\": \"Mina\"}'',
            JObj [(asc ''step_complete'', JBool True), (asc ''nickname'', JStr (asc ''Mina''))]),
         (asc ''{\"memories\": [{\"content\": \"likes tea\", \"importance\": 9}]}'',
            JObj [(asc ''memories'',
                   JList [JObj [(asc ''content'', JStr (asc ''likes tea'')),
                                (asc ''importance'', JInt 9)]])])],
      int_of_str = (\<lambda>t. None),
      str_of = (\<lambda>v. [])\<rparr>"

definition ex_fact :: "string \<Rightarrow> string \<Rightarrow> int \<Rightarrow> pydict" where
  "ex_fact memory_id character importance =
     [(asc ''user_id'', JStr (asc ''u1'')),
      (asc ''memory_id'', JStr (asc memory_id)),
      (asc ''character'', JStr (asc character)),
      (asc ''category'', JStr (asc ''fact'')),
      (asc ''content'', JStr (asc ''likes tea'')),
      (asc ''importance'', JInt importance),
      (asc ''reference_count'', JInt 0),
      (asc ''active'', JBool True)]"

definition ex_user :: pydict where
  "ex_user =
     [(asc ''user_id'', JStr (asc ''u1'')),
      (asc ''nickname'', JStr []),
      (asc ''onboarding_complete'', JBool False),
      (asc ''onboarding_step'', JInt 0),
      (asc ''total_sessions'', JInt 4)]"

definition ex_store :: store where
  "ex_store =
     \<lparr>users = [ex_user],
      conversations = [],
      memories = [ex_fact ''global#a'' ''global'' 2, ex_fact ''rumi#b'' ''rumi'' 5,
                  ex_fact ''rumi#c'' ''rumi'' 3],
      blobs = [],
      faults = []\<rparr>"

definition ex_messages :: "pydict list" where
  "ex_messages =
     [[(asc ''role'', JStr (asc ''user'')), (asc ''content'', JStr (asc ''hi''))],
      [(asc ''role'', JStr (asc ''assistant'')), (asc ''content'', JStr (asc ''hello''))]]"

text \<open>The invariant of the data model on a stored memory fact: an integer importance
  from 1 to 5.\<close>

definition importance_in_range :: "pydict \<Rightarrow> bool" where
  "importance_in_range item =
     (case map_of item (asc ''importance'') of
        Some (JInt n) \<Rightarrow> 1 \<le> n \<and> n \<le> 5
      | _ \<Rightarrow> False)"

definition ex_fresh :: "nat \<Rightarrow> pystr" where
  "ex_fresh i = asc ''0123456789ab''"

definition ex_text9 :: pystr where
  "ex_text9 = asc ''{\"memories\": [{\"content\": \"likes tea\", \"importance\": 9}]}''"

definition ex_memory9 :: pydict where
  "ex_memory9 = [(asc ''content'', JStr (asc ''likes tea'')), (asc ''importance'', JInt 9)]"

section \<open>Basic facts\<close>

lemma asc_eq_iff [simp]: "asc a = asc b \<longleftrightarrow> a = b"
  by (simp add: asc_def inj_map_eq_map inj_on_def)

lemma convert_decimals_id [simp]: "convert_decimals v = v"
  by (induction v rule: convert_decimals.induct) (simp_all add: map_idI)

lemma sanitize_for_ddb_id [simp]: "sanitize_for_ddb v = v"
  by (induction v rule: sanitize_for_ddb.induct) (simp_all add: map_idI)

lemma convert_item_id [simp]: "convert_item d = d"
  by (simp add: convert_item_def)

lemma sanitize_item_id [simp]: "sanitize_item d = d"
  by (simp add: sanitize_item_def)

lemma map_of_dset: "map_of (dset d k v) = (map_of d)(k \<mapsto> v)"
  by (induction d) (auto simp: fun_eq_iff)

section \<open>Adapter calls without faults\<close>

lemma adapter_call_quiet:
  "quiet s \<Longrightarrow> adapter_call s = (False, s\<lparr>faults := tl (faults s)\<rparr>)"
  by (cases "faults s") (auto simp: adapter_call_def quiet_def)

lemma quiet_tl [simp]: "quiet s \<Longrightarrow> quiet (s\<lparr>faults := tl (faults s)\<rparr>)"
  by (cases "faults s") (auto simp: quiet_def)

lemma quiet_fields [simp]:
  "quiet (s\<lparr>users := u\<rparr>) = quiet s"
  "quiet (s\<lparr>conversations := c\<rparr>) = quiet s"
  "quiet (s\<lparr>memories := m\<rparr>) = quiet s"
  "quiet (s\<lparr>blobs := b\<rparr>) = quiet s"
  by (simp_all add: quiet_def)

lemma has_key_user:
  "has_key (user_key uid) item \<longleftrightarrow> map_of item (asc ''user_id'') = Some (JStr uid)"
  by (simp add: has_key_def user_key_def)

lemma find_map_replace:
  "find P items = Some u \<Longrightarrow> P v \<Longrightarrow> find P (map (\<lambda>i. if P i then v else i) items) = Some v"
  by (induction items) (auto split: if_splits)

lemma tbl_get_has_key: "tbl_get key items = Some u \<Longrightarrow> has_key key u"
  by (auto simp: tbl_get_def dest: find_Some_iff[THEN iffD1])

section \<open>Login of an existing user\<close>

text \<open>
  C10. For an existing user whose record counts \<open>n\<close> sessions, and with no adapter
  failure, \<^verbatim>\<open>get_or_create_user\<close> returns the record as it was read, and leaves in the
  store a record with \<open>total_sessions = n + 1\<close> and \<open>last_login_at = now\<close>: the returned
  count is one less than the stored one.
\<close>

theorem get_or_create_user_returns_pre_update:
  assumes ex: "tbl_get (user_key user_id) (users s) = Some u"
    and ts: "map_of u (asc ''total_sessions'') = Some (JInt n)"
    and q: "quiet s"
  shows "\<exists>s' u' m. get_or_create_user now s user_id email display_name = (Inr u, s')
           \<and> tbl_get (user_key user_id) (users s') = Some u'
           \<and> u' = dset (dset u (asc ''last_login_at'') (JStr now)) (asc ''total_sessions'') (JInt m)
           \<and> map_of u' (asc ''total_sessions'') = Some (JInt m)
           \<and> map_of u' (asc ''last_login_at'') = Some (JStr now)
           \<and> map_of u (asc ''total_sessions'') = Some (JInt (m - 1))"
proof -
  let ?key = "user_key user_id"
  let ?u' = "dset (dset u (asc ''last_login_at'') (JStr now)) (asc ''total_sessions'') (JInt (n + 1))"
  let ?s1 = "s\<lparr>faults := tl (faults s)\<rparr>"
  let ?s2 = "?s1\<lparr>faults := tl (faults ?s1)\<rparr>"
  from ex have "has_key ?key u" by (rule tbl_get_has_key)
  then have hk': "has_key ?key ?u'"
    by (simp add: has_key_user map_of_dset)
  have upd: "tbl_update ?key
               [(asc ''last_login_at'', Lit (JStr now)),
                (asc ''total_sessions'', IfNotExistsPlus (asc ''total_sessions'') 0 1)] (users s)
             = Inr (map (\<lambda>i. if has_key ?key i then ?u' else i) (users s))"
    using ex ts by (simp add: tbl_update_def)
  have g: "tbl_get ?key (map (\<lambda>i. if has_key ?key i then ?u' else i) (users s)) = Some ?u'"
    using ex hk' unfolding tbl_get_def by (rule find_map_replace)
  have c1: "adapter_call s = (False, ?s1)"
    using q by (rule adapter_call_quiet)
  have c2: "adapter_call ?s1 = (False, ?s2)"
    using q by (intro adapter_call_quiet quiet_tl)
  have "get_or_create_user now s user_id email display_name
          = (Inr u, ?s2\<lparr>users := map (\<lambda>i. if has_key ?key i then ?u' else i) (users s)\<rparr>)"
    using ex upd c1 c2 by (simp add: get_or_create_user_def get_item_def update_item_def)
  then show ?thesis
    using g ts by (simp add: map_of_dset)
qed

theorem get_or_create_user_returns_pre_update_witness:
  "\<exists>s' u'. get_or_create_user (asc ''t9'')
       \<lparr>users = [[(asc ''user_id'', JStr (asc ''u1'')), (asc ''total_sessions'', JInt 4)]],
        conversations = [], memories = [], blobs = [], faults = [False, False]\<rparr>
       (asc ''u1'') (asc ''e'') (asc ''d'')
     = (Inr [(asc ''user_id'', JStr (asc ''u1'')), (asc ''total_sessions'', JInt 4)], s')
     \<and> tbl_get (user_key (asc ''u1'')) (users s') = Some u'
     \<and> map_of u' (asc ''total_sessions'') = Some (JInt 5)"
  using get_or_create_user_returns_pre_update
    [of "asc ''u1''"
        "\<lparr>users = [[(asc ''user_id'', JStr (asc ''u1'')), (asc ''total_sessions'', JInt 4)]],
          conversations = [], memories = [], blobs = [], faults = [False, False]\<rparr>"
        "[(asc ''user_id'', JStr (asc ''u1'')), (asc ''total_sessions'', JInt 4)]"
        4 "asc ''t9''" "asc ''e''" "asc ''d''"]
  by (auto simp: tbl_get_def has_key_user quiet_def)

lemma map_convert_item [simp]: "map convert_item xs = xs"
  by (induction xs) auto

section \<open>The order and the length of the ranked memories\<close>

lemma collect_Inr_map: "collect xs = Inr vs \<Longrightarrow> xs = map Inr vs"
  by (induction xs arbitrary: vs) (auto split: sum.splits)

lemma collect_map_Inr [simp]: "collect (map Inr vs) = Inr vs"
  by (induction vs) auto

lemma keys_of_zip:
  assumes "map f ms = map Inr ks" and "p \<in> set (zip ks ms)"
  shows "f (snd p) = Inr (fst p)"
proof -
  from assms(1) have len: "length ks = length ms"
    by (metis length_map)
  from assms(2) obtain i where i: "i < length ms" "p = (ks ! i, ms ! i)"
    using len by (auto simp: set_zip)
  from assms(1) i(1) len have "f (ms ! i) = Inr (ks ! i)"
    by (metis nth_map)
  with i show ?thesis by simp
qed

lemma py_take_prefix: "\<exists>n. py_take k xs = take n xs"
  by (auto simp: py_take_def)

lemma sorted_wrt_desc_sort_key:
  "sorted_wrt (\<lambda>a b. b \<le> a) (map fst (sort_key (\<lambda>p. - fst p) (ps :: (int \<times> 'a) list)))"
proof -
  have "sorted (map (\<lambda>p. - fst p) (sort_key (\<lambda>p. - fst p) ps))"
    by (rule sorted_sort_key)
  then show ?thesis
    by (simp add: sorted_wrt_map)
qed

lemma sort_by_importance_keys:
  assumes "sort_by_importance lib ms = Inr sorted_ms"
  shows "\<exists>ps. sorted_ms = map snd ps \<and> sorted_wrt (\<lambda>a b. b \<le> a) (map fst ps)
            \<and> (\<forall>p \<in> set ps. importance_key lib (snd p) = Inr (fst p))
            \<and> set (map snd ps) = set ms"
proof -
  from assms obtain ks where ks: "collect (map (importance_key lib) ms) = Inr ks"
    and sm: "sorted_ms = map snd (sort_key (\<lambda>p. - fst p) (zip ks ms))"
    by (auto simp: sort_by_importance_def split: sum.splits)
  let ?ps = "sort_key (\<lambda>p. - fst p) (zip ks ms)"
  from ks have m: "map (importance_key lib) ms = map Inr ks" by (rule collect_Inr_map)
  then have len: "length ks = length ms" by (metis length_map)
  have "\<forall>p \<in> set ?ps. importance_key lib (snd p) = Inr (fst p)"
    using keys_of_zip[OF m] by simp
  moreover have "set (map snd ?ps) = set ms"
  proof -
    have "set (map snd ?ps) = snd ` set (zip ks ms)" by simp
    also have "\<dots> = set (map snd (zip ks ms))" by simp
    also have "\<dots> = set ms" using len by (simp only: map_snd_zip)
    finally show ?thesis .
  qed
  ultimately show ?thesis using sm sorted_wrt_desc_sort_key by blast
qed

text \<open>
  C5. The list that \<^verbatim>\<open>_get_top_memories\<close> returns is in non-increasing order of
  importance, read as the ranker reads it (\<^verbatim>\<open>int(x.get("importance", 0))\<close>, which is
  defined on every returned fact), for every store, adapter failure and limit; and for a
  limit that is not negative the list is no longer than the limit.
\<close>

theorem get_top_memories_sorted_bounded:
  "\<exists>ks. collect (map (importance_key lib)
              (fst (get_top_memories lib now s user_id character limit))) = Inr ks
       \<and> sorted_wrt (\<lambda>a b. b \<le> a) ks
       \<and> (0 \<le> limit \<longrightarrow>
            int (length (fst (get_top_memories lib now s user_id character limit))) \<le> limit)"
proof -
  let ?res = "fst (get_top_memories lib now s user_id character limit)"
  have "?res = [] \<or> (\<exists>ms sorted_ms. sort_by_importance lib ms = Inr sorted_ms
                        \<and> ?res = py_take limit sorted_ms)"
    by (auto simp: get_top_memories_def split: prod.splits sum.splits)
  then show ?thesis
  proof
    assume "?res = []"
    then show ?thesis by simp
  next
    assume "\<exists>ms sorted_ms. sort_by_importance lib ms = Inr sorted_ms
              \<and> ?res = py_take limit sorted_ms"
    then obtain ms sorted_ms where sb: "sort_by_importance lib ms = Inr sorted_ms"
      and res: "?res = py_take limit sorted_ms" by blast
    from sort_by_importance_keys[OF sb] obtain ps where ps: "sorted_ms = map snd ps"
      "sorted_wrt (\<lambda>a b. b \<le> a) (map fst ps)"
      "\<forall>p \<in> set ps. importance_key lib (snd p) = Inr (fst p)" by blast
    obtain n where n: "py_take limit sorted_ms = take n sorted_ms"
      using py_take_prefix by blast
    have keys: "map (importance_key lib) (take n (map snd ps)) = map Inr (map fst (take n ps))"
      using ps(3) by (auto simp: take_map dest: in_set_takeD)
    have srt: "sorted_wrt (\<lambda>a b. b \<le> a) (map fst (take n ps))"
      using ps(2) by (simp add: take_map[symmetric] sorted_wrt_take)
    have len: "0 \<le> limit \<longrightarrow> int (length (py_take limit sorted_ms)) \<le> limit"
      by (auto simp: py_take_def)
    show ?thesis
      using res n keys srt len ps(1) by (simp del: map_map)
  qed
qed

lemma ex_top_memories:
  "fst (get_top_memories ex_lib (asc ''t9'') ex_store (asc ''u1'') (asc ''rumi'') 2)
     = [ex_fact ''rumi#b'' ''rumi'' 5, ex_fact ''rumi#c'' ''rumi'' 3]"
  by (simp add: get_top_memories_def query_memories_def adapter_call_def mem_query_def
      ex_store_def ex_fact_def sort_by_importance_def importance_key_def py_int_def dget_def
      py_take_def)

theorem get_top_memories_sorted_bounded_witness:
  "fst (get_top_memories ex_lib (asc ''t9'') ex_store (asc ''u1'') (asc ''rumi'') 2)
     = [ex_fact ''rumi#b'' ''rumi'' 5, ex_fact ''rumi#c'' ''rumi'' 3]
   \<and> (\<exists>ks. collect (map (importance_key ex_lib)
              (fst (get_top_memories ex_lib (asc ''t9'') ex_store (asc ''u1'') (asc ''rumi'') 2)))
            = Inr ks
          \<and> sorted_wrt (\<lambda>a b. b \<le> a) ks)
   \<and> int (length (fst (get_top_memories ex_lib (asc ''t9'') ex_store (asc ''u1'')
                        (asc ''rumi'') 2))) \<le> 2"
  using get_top_memories_sorted_bounded
    [of ex_lib "asc ''t9''" ex_store "asc ''u1''" "asc ''rumi''" 2] ex_top_memories
  by auto

section \<open>The length of the assembled context\<close>

lemma length_truncation_marker: "length truncation_marker = 12"
  by (simp add: truncation_marker_def)

lemma finish_context_bounded:
  "length (finish_context parts) \<le> 4000 + length truncation_marker"
  by (simp add: finish_context_def Let_def)

lemma build_memory_context_result:
  assumes "build_memory_context lib now s user_id character = (Inr r, s')"
  shows "\<exists>prof part1 part2 part3.
           fst (get_user_profile s user_id) = Inr prof
         \<and> profile_section lib prof = Inr part1
         \<and> memory_section lib (fst (get_top_memories lib now (snd (get_user_profile s user_id))
               user_id character 15)) = Inr part2
         \<and> summary_section lib (fst (get_recent_summaries
               (snd (get_top_memories lib now (snd (get_user_profile s user_id))
                      user_id character 15))
               user_id character 5)) = Inr part3
         \<and> r = finish_context (part1 @ part2 @ part3)"
  using assms by (auto simp: build_memory_context_def split: prod.splits sum.splits)

text \<open>
  C8. A string that \<^verbatim>\<open>build_memory_context\<close> returns is never longer than 4000 characters
  plus the length of the truncation marker (12 characters), and it is the empty string when
  the profile gives no line, the ranker returns no memory and the recent conversations give
  no summary line.
\<close>

theorem build_memory_context_bounded:
  assumes "build_memory_context lib now s user_id character = (Inr r, s')"
  shows "length r \<le> 4000 + length truncation_marker
       \<and> ((\<exists>prof. fst (get_user_profile s user_id) = Inr prof
                  \<and> profile_section lib prof = Inr [])
          \<and> fst (get_top_memories lib now (snd (get_user_profile s user_id))
                   user_id character 15) = []
          \<and> summary_section lib (fst (get_recent_summaries
               (snd (get_top_memories lib now (snd (get_user_profile s user_id))
                      user_id character 15))
               user_id character 5)) = Inr []
          \<longrightarrow> r = [])"
proof -
  from build_memory_context_result[OF assms] obtain prof part1 part2 part3 where
    p: "fst (get_user_profile s user_id) = Inr prof"
       "profile_section lib prof = Inr part1"
       "memory_section lib (fst (get_top_memories lib now (snd (get_user_profile s user_id))
               user_id character 15)) = Inr part2"
       "summary_section lib (fst (get_recent_summaries
               (snd (get_top_memories lib now (snd (get_user_profile s user_id))
                      user_id character 15))
               user_id character 5)) = Inr part3"
       "r = finish_context (part1 @ part2 @ part3)" by blast
  have "length r \<le> 4000 + length truncation_marker"
    using p(5) finish_context_bounded by simp
  moreover have "r = []"
    if "\<exists>prof. fst (get_user_profile s user_id) = Inr prof \<and> profile_section lib prof = Inr []"
      "fst (get_top_memories lib now (snd (get_user_profile s user_id)) user_id character 15) = []"
      "summary_section lib (fst (get_recent_summaries
               (snd (get_top_memories lib now (snd (get_user_profile s user_id))
                      user_id character 15))
               user_id character 5)) = Inr []"
    using that p by (auto simp: memory_section_def finish_context_def)
  ultimately show ?thesis by blast
qed

lemma ex_profile_lookup:
  "get_user_profile (ex_store\<lparr>memories := []\<rparr>) (asc ''u1'')
     = (Inr (Some ex_user), ex_store\<lparr>memories := []\<rparr>)"
  by (simp add: get_user_profile_def get_item_def adapter_call_def ex_store_def tbl_get_def
      has_key_def user_key_def ex_user_def)

lemma ex_profile_section: "profile_section ex_lib (Some ex_user) = Inr []"
  by (simp add: profile_section_def profile_lines_def joined_line_def dget_def ex_user_def)

lemma ex_no_memories:
  "get_top_memories ex_lib now (ex_store\<lparr>memories := []\<rparr>) (asc ''u1'') (asc ''rumi'') 15
     = ([], ex_store\<lparr>memories := []\<rparr>)"
  by (simp add: get_top_memories_def query_memories_def adapter_call_def mem_query_def
      ex_store_def sort_by_importance_def py_take_def)

lemma ex_no_summaries:
  "get_recent_summaries (ex_store\<lparr>memories := []\<rparr>) (asc ''u1'') (asc ''rumi'') 5
     = ([], ex_store\<lparr>memories := []\<rparr>)"
  by (simp add: get_recent_summaries_def adapter_call_def ex_store_def)

lemma ex_empty_context:
  "build_memory_context ex_lib (asc ''t9'') (ex_store\<lparr>memories := []\<rparr>) (asc ''u1'')
     (asc ''rumi'') = (Inr [], ex_store\<lparr>memories := []\<rparr>)"
  by (simp add: build_memory_context_def ex_profile_lookup ex_profile_section ex_no_memories
      ex_no_summaries memory_section_def summary_section_def finish_context_def)

theorem build_memory_context_bounded_witness:
  "\<exists>r s'. build_memory_context ex_lib (asc ''t9'') (ex_store\<lparr>memories := []\<rparr>) (asc ''u1'')
            (asc ''rumi'') = (Inr r, s')
         \<and> length r \<le> 4000 + length truncation_marker \<and> r = []"
  using build_memory_context_bounded[OF ex_empty_context] ex_empty_context
  by simp

section \<open>Frames of the adapter operations\<close>

lemma adapter_call_frame [simp]:
  "users (snd (adapter_call s)) = users s"
  "conversations (snd (adapter_call s)) = conversations s"
  "memories (snd (adapter_call s)) = memories s"
  "blobs (snd (adapter_call s)) = blobs s"
  by (simp_all add: adapter_call_def split: list.splits)

lemma put_object_frame [simp]:
  "users (snd (put_object path body s)) = users s"
  "conversations (snd (put_object path body s)) = conversations s"
  "memories (snd (put_object path body s)) = memories s"
  by (simp_all add: put_object_def adapter_call_def split: list.splits bool.splits)

lemma put_item_frame [simp]:
  "blobs (snd (put_item t key item s)) = blobs s"
  "t \<noteq> Users \<Longrightarrow> users (snd (put_item t key item s)) = users s"
  "t \<noteq> Conversations \<Longrightarrow> conversations (snd (put_item t key item s)) = conversations s"
  "t \<noteq> Memories \<Longrightarrow> memories (snd (put_item t key item s)) = memories s"
  by (cases t; simp add: put_item_def adapter_call_def split: list.splits bool.splits)+

lemma update_item_frame [simp]:
  "blobs (snd (update_item t key sets s)) = blobs s"
  "t \<noteq> Users \<Longrightarrow> users (snd (update_item t key sets s)) = users s"
  "t \<noteq> Conversations \<Longrightarrow> conversations (snd (update_item t key sets s)) = conversations s"
  "t \<noteq> Memories \<Longrightarrow> memories (snd (update_item t key sets s)) = memories s"
  by (cases t; simp add: update_item_def adapter_call_def split: list.splits bool.splits sum.splits)+

lemma update_user_profile_frame [simp]:
  "blobs (snd (update_user_profile now s user_id updates)) = blobs s"
  "conversations (snd (update_user_profile now s user_id updates)) = conversations s"
  "memories (snd (update_user_profile now s user_id updates)) = memories s"
  by (simp_all add: update_user_profile_def)

lemma save_memories_frame [simp]:
  "blobs (snd (save_memories lib now fresh user_id cid i mems s)) = blobs s"
  "users (snd (save_memories lib now fresh user_id cid i mems s)) = users s"
  "conversations (snd (save_memories lib now fresh user_id cid i mems s)) = conversations s"
  by (induction mems arbitrary: i s; simp add: Let_def split: jval.splits)+

lemma put_object_quiet:
  "quiet s \<Longrightarrow> put_object path body s
     = (Inr (), s\<lparr>faults := tl (faults s), blobs := dset (blobs s) path body\<rparr>)"
  by (simp add: put_object_def adapter_call_quiet)

lemma put_item_quiet:
  "quiet s \<Longrightarrow> put_item t key item s
     = (Inr (), set_rows t (tbl_put key item (rows t s)) (s\<lparr>faults := tl (faults s)\<rparr>))"
  by (cases t) (simp_all add: put_item_def adapter_call_quiet)

lemma tbl_get_tbl_put:
  "has_key key item \<Longrightarrow> tbl_get key (tbl_put key item items) = Some item"
  by (induction items) (auto simp: tbl_get_def tbl_put_def list_ex_iff split: if_splits)

lemma extract_fallback:
  "parse_reply lib reply = Inl err \<Longrightarrow>
     extract_all_from_conversation lib reply character messages = extraction_fallback"
  by (simp add: extract_all_from_conversation_def)

section \<open>A save with a failed extraction\<close>

text \<open>
  C7. When the extraction call of \<^verbatim>\<open>save_conversation\<close> fails or its reply does not parse
  as JSON (the \<^verbatim>\<open>try\<close> block raises), a save of at least two messages with a working
  store writes the transcript blob and the conversation record, with the empty summary, no
  keyword and the sentiment \<^verbatim>\<open>neutral\<close>, and changes neither the memories nor the users.
\<close>

theorem save_conversation_malformed_extraction:
  assumes len: "2 \<le> length messages"
    and bad: "parse_reply lib reply = Inl err"
    and q: "quiet s"
  shows "\<exists>s' record.
           save_conversation lib now fresh reply s user_id character messages session_start = (Inr (), s')
         \<and> map_of (blobs s') (s3_log_path_of user_id (conversation_id_of character session_start))
             = Some (log_data_full now user_id character session_start messages)
         \<and> conversations s'
             = tbl_put (conv_key user_id (conversation_id_of character session_start)) record
                 (conversations s)
         \<and> tbl_get (conv_key user_id (conversation_id_of character session_start))
               (conversations s') = Some record
         \<and> map_of record (asc ''summary'') = Some (JStr [])
         \<and> map_of record (asc ''keywords'') = Some (JList [])
         \<and> map_of record (asc ''user_sentiment'') = Some (JStr (asc ''neutral''))
         \<and> memories s' = memories s
         \<and> users s' = users s"
proof -
  let ?cid = "conversation_id_of character session_start"
  let ?path = "s3_log_path_of user_id ?cid"
  let ?e = "[(asc ''summary'', JStr []),
           (asc ''keywords'', JList []),
           (asc ''user_sentiment'', JStr (asc ''neutral'')),
           (asc ''new_user_info'', JObj []),
           (asc ''memories'', JList [])]"
  let ?rec = "conv_item now user_id character session_start messages ?e"
  let ?s1 = "s\<lparr>faults := tl (faults s), blobs := dset (blobs s) ?path (log_data_full now user_id character session_start messages)\<rparr>"
  let ?s2 = "set_rows Conversations (tbl_put (conv_key user_id ?cid) ?rec (conversations ?s1)) (?s1\<lparr>faults := tl (faults ?s1)\<rparr>)"
  have ex: "extract_all_from_conversation lib reply character messages = JObj ?e"
    using bad by (simp add: extract_fallback extraction_fallback_def)
  have q1: "quiet ?s1" using quiet_tl[OF q] by (simp add: quiet_def)
  have po: "put_object ?path (log_data_full now user_id character session_start messages) s = (Inr (), ?s1)"
    using q by (rule put_object_quiet)
  have pi: "put_item Conversations (conv_key user_id ?cid) ?rec ?s1 = (Inr (), ?s2)"
    using put_item_quiet[OF q1, of Conversations "conv_key user_id ?cid" ?rec] by simp
  have mem: "py_iter (dget ?e (asc ''memories'') (JList [])) = Inr []"
    by (simp add: py_iter_def dget_def)
  have pu: "profile_updates_of (dget ?e (asc ''new_user_info'') (JObj [])) = Inr []"
    by (simp add: profile_updates_of_def dget_def)
  have guard: "\<not> (messages = [] \<or> length messages < 2)"
    using len by auto
  have sc: "save_conversation lib now fresh reply s user_id character messages session_start = (Inr (), ?s2)"
    unfolding save_conversation_def Let_def if_not_P[OF guard] ex po
    using pi mem pu by (simp del: set_rows.simps)
  have hk: "has_key (conv_key user_id ?cid) ?rec"
    by (simp add: has_key_def conv_key_def conv_item_def)
  have r1: "map_of ?rec (asc ''summary'') = Some (JStr [])"
    "map_of ?rec (asc ''keywords'') = Some (JList [])"
    "map_of ?rec (asc ''user_sentiment'') = Some (JStr (asc ''neutral''))"
    by (simp_all add: conv_item_def dget_def)
  show ?thesis
    unfolding sc using r1 tbl_get_tbl_put[OF hk]
    by (simp add: map_of_dset)
qed


lemma ex_lib_loads [simp]: "json_loads ex_lib = map_of
        [(asc ''{}'', JObj []),
         (asc ''{\"step_complete\": true}'', JObj [(asc ''step_complete'', JBool True)]),
         (asc ''{\"step_complete\": true, \"nickname\": \"Mina\"}'',
            JObj [(asc ''step_complete'', JBool True), (asc ''nickname'', JStr (asc ''Mina''))]),
         (asc ''{\"memories\": [{\"content\": \"likes tea\", \"importance\": 9}]}'',
            JObj [(asc ''memories'',
                   JList [JObj [(asc ''content'', JStr (asc ''likes tea'')),
                                (asc ''importance'', JInt 9)]])])]"
  by (simp add: ex_lib_def)

lemma ex_not_json: "parse_reply ex_lib (Reply (asc ''I cannot help'')) = Inl ValueError"
  by (simp add: parse_reply_def py_strip_def unfence_def startswith_def fence_def asc_def is_space_def)

lemma ex_store_quiet: "quiet ex_store"
  by (simp add: quiet_def ex_store_def)

theorem save_conversation_malformed_extraction_witness:
  "\<exists>s' record.
     save_conversation ex_lib (asc ''t9'') ex_fresh
       (Reply (asc ''I cannot help'')) ex_store (asc ''u1'') (asc ''rumi'') ex_messages (asc ''t0'')
       = (Inr (), s')
   \<and> tbl_get (conv_key (asc ''u1'') (conversation_id_of (asc ''rumi'') (asc ''t0'')))
        (conversations s') = Some record
   \<and> map_of record (asc ''summary'') = Some (JStr [])
   \<and> map_of record (asc ''keywords'') = Some (JList [])
   \<and> map_of record (asc ''user_sentiment'') = Some (JStr (asc ''neutral''))
   \<and> memories s' = memories ex_store"
proof -
  have len: "2 \<le> length ex_messages" by (simp add: ex_messages_def)
  from save_conversation_malformed_extraction[OF len ex_not_json ex_store_quiet]
  show ?thesis by blast
qed

section \<open>The importance of the written memory facts\<close>

lemma set_tbl_put: "set (tbl_put key item items) \<subseteq> insert item (set items)"
  by (auto simp: tbl_put_def)

lemma put_item_memories_subset:
  "set (memories (snd (put_item Memories key item s))) \<subseteq> insert item (set (memories s))"
  using set_tbl_put[of key item "memories s"]
  by (auto simp: put_item_def adapter_call_def split: list.splits bool.splits)

lemma save_memories_items:
  "item \<in> set (memories (snd (save_memories lib now fresh user_id cid i mems s))) \<Longrightarrow>
     item \<in> set (memories s) \<or> (\<exists>m mid. JObj m \<in> set mems \<and> item = mem_item now user_id cid mid m)"
proof (induction mems arbitrary: i s)
  case Nil
  then show ?case by simp
next
  case (Cons mem rest)
  show ?case
  proof (cases mem)
    case (JObj m)
    let ?mid = "fmt lib (dget m (asc ''character'') (JStr (asc ''global''))) @ [35] @ fresh i"
    let ?s1 = "snd (put_item Memories (memory_key user_id ?mid) (mem_item now user_id cid ?mid m) s)"
    from Cons.prems JObj
    have "item \<in> set (memories (snd (save_memories lib now fresh user_id cid (Suc i) rest ?s1)))"
      by (simp add: Let_def)
    from Cons.IH[OF this]
    have "item \<in> set (memories ?s1) \<or> (\<exists>m mid. JObj m \<in> set rest \<and> item = mem_item now user_id cid mid m)" .
    moreover have "set (memories ?s1) \<subseteq> insert (mem_item now user_id cid ?mid m) (set (memories s))"
      by (rule put_item_memories_subset)
    ultimately show ?thesis using JObj by auto
  qed (use Cons.prems in simp_all)
qed

lemma save_conversation_memories:
  assumes "item \<in> set (memories (snd (save_conversation lib now fresh reply s user_id character messages session_start)))"
    and "item \<notin> set (memories s)"
  shows "\<exists>e mems. extract_all_from_conversation lib reply character messages = JObj e
           \<and> py_iter (dget e (asc ''memories'') (JList [])) = Inr mems
           \<and> item \<in> set (memories (snd (save_memories lib now fresh user_id
                  (conversation_id_of character session_start) 0 mems
                  (snd (put_item Conversations (conv_key user_id (conversation_id_of character session_start))
                          (conv_item now user_id character session_start messages e)
                          (snd (put_object (s3_log_path_of user_id (conversation_id_of character session_start))
                                  (log_data_full now user_id character session_start messages) s)))))))"
  using assms
  by (auto simp: save_conversation_def Let_def split: if_splits jval.splits sum.splits prod.splits)


text \<open>
  C2 (amended). A memory fact that \<^verbatim>\<open>save_conversation\<close> adds to the table is built from
  one of the extracted memories, and its importance is the value of that memory's
  \<^verbatim>\<open>importance\<close> field as extracted, or 3 when the field is absent: nothing clamps or
  checks it. The fact's importance is an integer from 1 to 5 exactly when that value is.
\<close>

theorem save_conversation_importance_as_extracted:
  assumes new: "item \<in> set (memories (snd (save_conversation lib now fresh reply s user_id
                    character messages session_start)))"
    and old: "item \<notin> set (memories s)"
  shows "\<exists>e mems m.
           extract_all_from_conversation lib reply character messages = JObj e
         \<and> py_iter (dget e (asc ''memories'') (JList [])) = Inr mems
         \<and> JObj m \<in> set mems
         \<and> map_of item (asc ''importance'') = Some (dget m (asc ''importance'') (JInt 3))
         \<and> importance_in_range item
             = (case dget m (asc ''importance'') (JInt 3) of
                  JInt n \<Rightarrow> 1 \<le> n \<and> n \<le> 5
                | _ \<Rightarrow> False)"
proof -
  from save_conversation_memories[OF new old] obtain e mems where
    e: "extract_all_from_conversation lib reply character messages = JObj e"
    and it: "py_iter (dget e (asc ''memories'') (JList [])) = Inr mems"
    and mem: "item \<in> set (memories (snd (save_memories lib now fresh user_id
                  (conversation_id_of character session_start) 0 mems
                  (snd (put_item Conversations (conv_key user_id (conversation_id_of character session_start))
                          (conv_item now user_id character session_start messages e)
                          (snd (put_object (s3_log_path_of user_id (conversation_id_of character session_start))
                                  (log_data_full now user_id character session_start messages) s)))))))"
    by blast
  from save_memories_items[OF mem] old obtain m mid where
    m: "JObj m \<in> set mems" and item: "item = mem_item now user_id (conversation_id_of character session_start) mid m"
    by auto
  have imp: "map_of item (asc ''importance'') = Some (dget m (asc ''importance'') (JInt 3))"
    unfolding item by (simp add: mem_item_def)
  then have "importance_in_range item
             = (case dget m (asc ''importance'') (JInt 3) of
                  JInt n \<Rightarrow> 1 \<le> n \<and> n \<le> 5
                | _ \<Rightarrow> False)"
    by (simp add: importance_in_range_def)
  with e it m imp show ?thesis by blast
qed

lemma ex_parse9:
  "parse_reply ex_lib (Reply ex_text9) = Inr (JObj [(asc ''memories'', JList [JObj ex_memory9])])"
  by (simp add: parse_reply_def py_strip_def unfence_def startswith_def fence_def asc_def
      is_space_def ex_text9_def ex_memory9_def)

lemma nofault:
  "faults s = [] \<Longrightarrow> adapter_call s = (False, s)"
  "faults s = [] \<Longrightarrow> put_object p b s = (Inr (), s\<lparr>blobs := dset (blobs s) p b\<rparr>)"
  "faults s = [] \<Longrightarrow> put_item t key item s = (Inr (), set_rows t (tbl_put key item (rows t s)) s)"
  "faults s = [] \<Longrightarrow> update_item t key sets s
     = (case tbl_update key sets (rows t s) of
          Inl err \<Rightarrow> (Inl err, s)
        | Inr r \<Rightarrow> (Inr (), set_rows t r s))"
  "faults s = [] \<Longrightarrow> get_item t key s = (Inr (tbl_get key (rows t s)), s)"
  "faults s = [] \<Longrightarrow> query_memories u c s = (Inr (mem_query u c (memories s)), s)"
  by (simp_all add: adapter_call_def put_object_def put_item_def update_item_def get_item_def
      query_memories_def)

lemma ex_store_fields [simp]:
  "faults ex_store = []"
  "users ex_store = [ex_user]"
  "conversations ex_store = []"
  "blobs ex_store = []"
  "memories ex_store = [ex_fact ''global#a'' ''global'' 2, ex_fact ''rumi#b'' ''rumi'' 5,
                  ex_fact ''rumi#c'' ''rumi'' 3]"
  by (simp_all add: ex_store_def)

lemma ex_save9_memories:
  "memories (snd (save_conversation ex_lib (asc ''t9'') ex_fresh
       (Reply ex_text9) ex_store (asc ''u1'') (asc ''rumi'') ex_messages (asc ''t0'')))
   = memories ex_store
     @ [mem_item (asc ''t9'') (asc ''u1'') (conversation_id_of (asc ''rumi'') (asc ''t0''))
          (asc ''global'' @ [35] @ asc ''0123456789ab'') ex_memory9]"
proof -
  have len: "\<not> (ex_messages = [] \<or> length ex_messages < 2)" by (simp add: ex_messages_def)
  have ex: "extract_all_from_conversation ex_lib (Reply ex_text9) (asc ''rumi'') ex_messages
              = JObj [(asc ''memories'', JList [JObj ex_memory9])]"
    by (simp add: extract_all_from_conversation_def ex_parse9)
  have nokey: "\<not> list_ex (has_key (memory_key (asc ''u1'') (asc ''global'' @ [35] @ asc ''0123456789ab'')))
                 (memories ex_store)"
    by (simp add: ex_fact_def has_key_def memory_key_def asc_def)
  have ch: "dget ex_memory9 (asc ''character'') (JStr (asc ''global'')) = JStr (asc ''global'')"
    by (simp add: dget_def ex_memory9_def)
  have it: "py_iter (dget [(asc ''memories'', JList [JObj ex_memory9])] (asc ''memories'') (JList []))
              = Inr [JObj ex_memory9]"
    by (simp add: py_iter_def dget_def)
  have pu: "profile_updates_of (dget [(asc ''memories'', JList [JObj ex_memory9])] (asc ''new_user_info'') (JObj [])) = Inr []"
    by (simp add: profile_updates_of_def dget_def)
  show ?thesis
    using nokey len
    by (simp add: save_conversation_def Let_def ex it pu nofault ch fmt_def tbl_put_def
        ex_fresh_def)
qed

text \<open>
  C2 as stated fails: an extraction that gives a memory the importance 9 makes
  \<^verbatim>\<open>save_conversation\<close> write a fact with the importance 9.
\<close>

theorem save_conversation_importance_out_of_range:
  "map_of (last (memories (snd (save_conversation ex_lib (asc ''t9'') ex_fresh
       (Reply ex_text9) ex_store (asc ''u1'') (asc ''rumi'') ex_messages (asc ''t0'')))))
     (asc ''importance'') = Some (JInt 9)
   \<and> \<not> list_all importance_in_range
         (memories (snd (save_conversation ex_lib (asc ''t9'') ex_fresh
            (Reply ex_text9) ex_store (asc ''u1'') (asc ''rumi'') ex_messages (asc ''t0''))))"
  unfolding ex_save9_memories
  by (simp add: mem_item_def ex_memory9_def dget_def importance_in_range_def)

theorem save_conversation_importance_as_extracted_witness:
  "\<exists>e mems m.
     extract_all_from_conversation ex_lib (Reply ex_text9) (asc ''rumi'') ex_messages = JObj e
   \<and> py_iter (dget e (asc ''memories'') (JList [])) = Inr mems
   \<and> JObj m \<in> set mems
   \<and> map_of (mem_item (asc ''t9'') (asc ''u1'') (conversation_id_of (asc ''rumi'') (asc ''t0''))
               (asc ''global'' @ [35] @ asc ''0123456789ab'') ex_memory9) (asc ''importance'')
       = Some (dget m (asc ''importance'') (JInt 3))
   \<and> importance_in_range
         (mem_item (asc ''t9'') (asc ''u1'') (conversation_id_of (asc ''rumi'') (asc ''t0''))
            (asc ''global'' @ [35] @ asc ''0123456789ab'') ex_memory9)
       = (case dget m (asc ''importance'') (JInt 3) of
            JInt n \<Rightarrow> 1 \<le> n \<and> n \<le> 5
          | _ \<Rightarrow> False)"
proof -
  let ?item = "mem_item (asc ''t9'') (asc ''u1'') (conversation_id_of (asc ''rumi'') (asc ''t0''))
                 (asc ''global'' @ [35] @ asc ''0123456789ab'') ex_memory9"
  have new: "?item \<in> set (memories (snd (save_conversation ex_lib (asc ''t9'')
               ex_fresh (Reply ex_text9) ex_store (asc ''u1'') (asc ''rumi'')
               ex_messages (asc ''t0''))))"
    unfolding ex_save9_memories by simp
  have old: "?item \<notin> set (memories ex_store)"
    by (simp add: mem_item_def ex_fact_def asc_def)
  from save_conversation_importance_as_extracted[OF new old] show ?thesis .
qed

end
